theory Spec2Isabelle
  imports Complex_Main "HOL-Library.Multiset"
begin

section \<open>Spaced repetition scheduling (sr-algorithm.js) and the study queue\<close>

text \<open>
  The development embeds the module \<^verbatim>\<open>SRAlgorithm\<close> (the SM-2 variant of
  \<^verbatim>\<open>js/sr-algorithm.js\<close>), the queue construction of \<^verbatim>\<open>startStudySession\<close>
  (\<^verbatim>\<open>js/app.js\<close>) and the settings defaults of \<^verbatim>\<open>collections.create\<close>
  (\<^verbatim>\<open>js/storage.js\<close>).

  Conventions of the embedding:
  \<^item> JavaScript numbers that hold fractions (ease factors, averages, the random draw) are
    exact reals; numbers that the program keeps integral (intervals in days, counters,
    quality ratings, limits) are \<open>int\<close> or \<open>nat\<close>. Double rounding error is not modelled.
  \<^item> A calendar date string \<^verbatim>\<open>YYYY-MM-DD\<close> is the number of its day; the string
    comparisons \<^verbatim>\<open><\<close>, \<^verbatim>\<open><=\<close>, \<^verbatim>\<open>===\<close> and \<^verbatim>\<open>localeCompare\<close> on such strings are
    the order on day numbers, and \<^verbatim>\<open>addDays\<close> is addition.
  \<^item> The ambient inputs of the source are parameters: \<open>now\<close> (the ISO timestamp of
    \<^verbatim>\<open>new Date()\<close>), \<open>today\<close> (\<^verbatim>\<open>todayString()\<close>) and \<open>rnd\<close> (the value of the one
    call of \<^verbatim>\<open>Math.random()\<close>, a number in \<open>[0, 1)\<close>).
  \<^item> A property that may be \<^verbatim>\<open>undefined\<close> or \<^verbatim>\<open>null\<close> is an \<open>option\<close>.
  \<^item> The \<^verbatim>\<open>history\<close> array of a card is an object shared by reference, so arrays live
    in an explicit heap and a card holds an address.
\<close>

subsection \<open>Data\<close>

datatype card_state = New | Learning | Review

text \<open>A history entry \<^verbatim>\<open>{date, quality, interval, easeFactor}\<close>.\<close>

record ReviewRecord =
  r_date :: string
  r_quality :: int
  r_interval :: int
  r_easeFactor :: real

type_synonym addr = nat

record heap =
  arrays :: "addr \<Rightarrow> ReviewRecord list"
  next_addr :: addr

text \<open>The object \<^verbatim>\<open>card.sr\<close>.\<close>

record sr_data =
  state :: card_state
  easeFactor :: real
  interval :: int
  repetitions :: nat
  learningStep :: nat
  dueDate :: "int option"
  lastReview :: "string option"
  history :: "addr option"

record card =
  card_id :: string
  sr :: sr_data

text \<open>The object \<^verbatim>\<open>collection.settings\<close>; every property may be missing.\<close>

record settings =
  newCardsPerDay :: "int option"
  reviewsPerDay :: "int option"
  learningSteps :: "int list option"
  graduatingInterval :: "int option"
  easyInterval :: "int option"
  startingEase :: "real option"

subsection \<open>JavaScript primitives\<close>

text \<open>
  \<^verbatim>\<open>v || d\<close> for a number: \<^verbatim>\<open>undefined\<close> and \<open>0\<close> are falsy. For an array: only
  \<^verbatim>\<open>undefined\<close> is falsy, the empty array is truthy.
\<close>

definition or_number :: "'a::zero option \<Rightarrow> 'a \<Rightarrow> 'a" where
  "or_number v d = (case v of None \<Rightarrow> d | Some x \<Rightarrow> if x = 0 then d else x)"

definition or_array :: "'a list option \<Rightarrow> 'a list \<Rightarrow> 'a list" where
  "or_array v d = (case v of None \<Rightarrow> d | Some xs \<Rightarrow> xs)"

text \<open>\<^verbatim>\<open>Math.round\<close>: the nearest integer, a tie going up.\<close>

definition Math_round :: "real \<Rightarrow> int" where
  "Math_round x = \<lfloor>x + 1 / 2\<rfloor>"

text \<open>\<^verbatim>\<open>xs.slice(0, e)\<close>: a negative end counts from the end of the array.\<close>

definition slice0 :: "'a list \<Rightarrow> int \<Rightarrow> 'a list" where
  "slice0 xs e = (if e < 0 then take (nat (int (length xs) + e)) xs else take (nat e) xs)"

text \<open>\<^verbatim>\<open>[]\<close> allocates a fresh array; \<^verbatim>\<open>a.push(r)\<close> extends the array at \<open>a\<close> in place.\<close>

definition array_new :: "heap \<Rightarrow> heap \<times> addr" where
  "array_new h =
     (h\<lparr>arrays := (arrays h)(next_addr h := []), next_addr := Suc (next_addr h)\<rparr>, next_addr h)"

definition array_push :: "heap \<Rightarrow> addr \<Rightarrow> ReviewRecord \<Rightarrow> heap" where
  "array_push h a r = h\<lparr>arrays := (arrays h)(a := arrays h a @ [r])\<rparr>"

text \<open>Reading \<^verbatim>\<open>x.history\<close> through the heap.\<close>

definition history_of :: "heap \<Rightarrow> sr_data \<Rightarrow> ReviewRecord list option" where
  "history_of h s = map_option (arrays h) (history s)"

subsection \<open>The interval engine\<close>

definition DEFAULT_LEARNING_STEPS :: "int list" where
  "DEFAULT_LEARNING_STEPS = [1, 10]"

definition DEFAULT_GRADUATING_INTERVAL :: int where
  "DEFAULT_GRADUATING_INTERVAL = 1"

definition DEFAULT_EASY_INTERVAL :: int where
  "DEFAULT_EASY_INTERVAL = 4"

definition MIN_EASE_FACTOR :: real where
  "MIN_EASE_FACTOR = 13 / 10"

definition DEFAULT_EASE_FACTOR :: real where
  "DEFAULT_EASE_FACTOR = 5 / 2"

definition addDays :: "int \<Rightarrow> int \<Rightarrow> int" where
  "addDays date days = date + days"

definition applyFuzz :: "real \<Rightarrow> int \<Rightarrow> int" where
  "applyFuzz rnd ivl =
     (if ivl \<le> 7 then ivl
      else let fuzz = of_int ivl * (5 / 100)
           in Math_round (of_int ivl + (rnd * 2 - 1) * fuzz))"

definition handleLearningCard ::
  "sr_data \<Rightarrow> int \<Rightarrow> int list \<Rightarrow> int \<Rightarrow> int \<Rightarrow> int \<Rightarrow> sr_data" where
  "handleLearningCard s quality learningSteps' graduatingInterval' easyInterval' today =
     (if quality = 0 then
        s\<lparr>state := Learning, learningStep := 0, repetitions := 0, dueDate := Some today\<rparr>
      else if quality = 3 then
        s\<lparr>state := Review, interval := easyInterval',
          dueDate := Some (addDays today easyInterval'), repetitions := 1, learningStep := 0\<rparr>
      else
        let nextStep = learningStep s + 1 in
        if nextStep \<ge> length learningSteps' then
          s\<lparr>state := Review, interval := graduatingInterval',
            dueDate := Some (addDays today graduatingInterval'), repetitions := 1,
            learningStep := 0\<rparr>
        else
          s\<lparr>state := Learning, learningStep := nextStep, dueDate := Some today\<rparr>)"

definition handleReviewCard :: "real \<Rightarrow> sr_data \<Rightarrow> int \<Rightarrow> int \<Rightarrow> sr_data" where
  "handleReviewCard rnd s quality today =
     (if quality = 0 then
        s\<lparr>state := Learning, learningStep := 0, repetitions := 0,
          easeFactor := max MIN_EASE_FACTOR (easeFactor s - 2 / 10),
          interval := max 1 (Math_round (of_int (interval s) * (5 / 10))),
          dueDate := Some today\<rparr>
      else
        let efDelta = 1 / 10 - (3 - of_int quality) * (8 / 100 + (3 - of_int quality) * (2 / 100));
            s1 = s\<lparr>easeFactor := max MIN_EASE_FACTOR (easeFactor s + efDelta)\<rparr>;
            newInterval =
              (if repetitions s1 = 0 then 1
               else if repetitions s1 = 1 then 6
               else Math_round (of_int (interval s1) * easeFactor s1));
            newInterval =
              (if quality = 1 then Math_round (of_int newInterval * (8 / 10))
               else if quality = 3 then Math_round (of_int newInterval * (13 / 10))
               else newInterval);
            newInterval = applyFuzz rnd newInterval;
            newInterval = max 1 newInterval
        in s1\<lparr>interval := newInterval, dueDate := Some (addDays today newInterval),
              repetitions := repetitions s1 + 1\<rparr>)"

text \<open>
  \<^verbatim>\<open>calculateNextReview(card, quality, settings)\<close>. The copy \<^verbatim>\<open>{ ...card.sr }\<close> is shallow:
  the scalar fields are copied, the history array is not, so the \<^verbatim>\<open>push\<close> writes to the
  array the card holds. The function has no \<^verbatim>\<open>throw\<close>; it returns on every input.
\<close>

definition calculateNextReview ::
  "heap \<Rightarrow> string \<Rightarrow> int \<Rightarrow> real \<Rightarrow> card \<Rightarrow> int \<Rightarrow> settings \<Rightarrow> heap \<times> sr_data" where
  "calculateNextReview h now today rnd c quality stg =
     (let learningSteps' = or_array (learningSteps stg) DEFAULT_LEARNING_STEPS;
          graduatingInterval' = or_number (graduatingInterval stg) DEFAULT_GRADUATING_INTERVAL;
          easyInterval' = or_number (easyInterval stg) DEFAULT_EASY_INTERVAL;
          s = sr c;
          (h1, a) = (case history s of None \<Rightarrow> array_new h | Some a \<Rightarrow> (h, a));
          s = s\<lparr>history := Some a\<rparr>;
          h2 = array_push h1 a
                 \<lparr>r_date = now, r_quality = quality, r_interval = interval s,
                  r_easeFactor = easeFactor s\<rparr>;
          s = s\<lparr>lastReview := Some now\<rparr>
      in if state s = New \<or> state s = Learning
         then (h2, handleLearningCard s quality learningSteps' graduatingInterval' easyInterval' today)
         else (h2, handleReviewCard rnd s quality today))"

text \<open>The call with no third argument: \<^verbatim>\<open>settings = {}\<close>.\<close>

definition no_settings :: settings where
  "no_settings = \<lparr>newCardsPerDay = None, reviewsPerDay = None, learningSteps = None,
     graduatingInterval = None, easyInterval = None, startingEase = None\<rparr>"

subsection \<open>The study queue\<close>

definition getDueCards :: "int \<Rightarrow> card list \<Rightarrow> card list" where
  "getDueCards dateString cards =
     filter (\<lambda>c. if state (sr c) = New then True
                 else if state (sr c) = Learning then True
                 else (case dueDate (sr c) of Some d \<Rightarrow> d \<le> dateString | None \<Rightarrow> False)) cards"

text \<open>The four arrays that the \<^verbatim>\<open>forEach\<close> of \<^verbatim>\<open>sortStudyQueue\<close> fills.\<close>

record buckets =
  overdue :: "card list"
  dueReview :: "card list"
  learning :: "card list"
  newCards :: "card list"

definition categorise :: "int \<Rightarrow> card \<Rightarrow> buckets \<Rightarrow> buckets" where
  "categorise today c b =
     (if state (sr c) = New then b\<lparr>newCards := newCards b @ [c]\<rparr>
      else if state (sr c) = Learning then b\<lparr>learning := learning b @ [c]\<rparr>
      else (case dueDate (sr c) of
              Some d \<Rightarrow>
                if d < today then b\<lparr>overdue := overdue b @ [c]\<rparr>
                else if d = today then b\<lparr>dueReview := dueReview b @ [c]\<rparr>
                else b
            | None \<Rightarrow> b))"

text \<open>
  The sort key of an overdue card. Only cards with a due date reach the \<^verbatim>\<open>overdue\<close>
  array, so the second case is never evaluated by \<open>sortStudyQueue\<close>.
\<close>

definition due_key :: "card \<Rightarrow> int" where
  "due_key c = (case dueDate (sr c) of Some d \<Rightarrow> d | None \<Rightarrow> 0)"

text \<open>
  \<^verbatim>\<open>Array.prototype.sort\<close> with a comparator that is the difference of a key is the
  stable ascending sort by that key, which is what \<open>sort_key\<close> computes.
\<close>

definition sortStudyQueue :: "int \<Rightarrow> card list \<Rightarrow> card list" where
  "sortStudyQueue today cards =
     (let b = fold (categorise today) cards
                \<lparr>overdue = [], dueReview = [], learning = [], newCards = []\<rparr>
      in sort_key due_key (overdue b)
         @ sort_key (\<lambda>c. easeFactor (sr c)) (dueReview b)
         @ sort_key (\<lambda>c. learningStep (sr c)) (learning b)
         @ newCards b)"

text \<open>
  The queue that \<^verbatim>\<open>startStudySession\<close> stores in the session; \<open>cs\<close> is
  \<^verbatim>\<open>collection.settings\<close>, read with optional chaining.
\<close>

definition startStudySession_queue :: "int \<Rightarrow> settings option \<Rightarrow> card list \<Rightarrow> card list" where
  "startStudySession_queue today cs allCards =
     (let dueCards = getDueCards today allCards;
          newLimit = or_number (Option.bind cs newCardsPerDay) 20;
          reviewLimit = or_number (Option.bind cs reviewsPerDay) 200;
          newCards' = slice0 (filter (\<lambda>c. state (sr c) = New) dueCards) newLimit;
          reviewCards = slice0 (filter (\<lambda>c. state (sr c) \<noteq> New) dueCards) reviewLimit;
          dueCards = reviewCards @ newCards'
      in sortStudyQueue today dueCards)"

text \<open>The \<^verbatim>\<open>settings\<close> object that \<^verbatim>\<open>collections.create(data)\<close> stores.\<close>

definition create_settings :: "settings option \<Rightarrow> settings" where
  "create_settings ds =
     \<lparr>newCardsPerDay = Some (or_number (Option.bind ds newCardsPerDay) 20),
      reviewsPerDay = Some (or_number (Option.bind ds reviewsPerDay) 200),
      learningSteps = Some (or_array (Option.bind ds learningSteps) [1, 10]),
      graduatingInterval = Some (or_number (Option.bind ds graduatingInterval) 1),
      easyInterval = Some (or_number (Option.bind ds easyInterval) 4),
      startingEase = Some (or_number (Option.bind ds startingEase) (5 / 2))\<rparr>"

subsection \<open>Statistics\<close>

record stats =
  total :: nat
  newCount :: nat
  learningCount :: nat
  reviewCount :: nat
  dueToday :: nat
  averageEase :: real

text \<open>The counters of \<^verbatim>\<open>getStudyStats\<close>, updated by one iteration of its \<^verbatim>\<open>forEach\<close>.\<close>

record counters =
  c_new :: nat
  c_learning :: nat
  c_review :: nat
  c_dueToday :: nat
  c_totalEase :: real

definition count_card :: "int \<Rightarrow> card \<Rightarrow> counters \<Rightarrow> counters" where
  "count_card today c k =
     (let k = k\<lparr>c_totalEase := c_totalEase k + easeFactor (sr c)\<rparr>
      in if state (sr c) = New then k\<lparr>c_new := c_new k + 1, c_dueToday := c_dueToday k + 1\<rparr>
         else if state (sr c) = Learning
         then k\<lparr>c_learning := c_learning k + 1, c_dueToday := c_dueToday k + 1\<rparr>
         else let k = k\<lparr>c_review := c_review k + 1\<rparr>
              in (case dueDate (sr c) of
                    Some d \<Rightarrow> if d \<le> today then k\<lparr>c_dueToday := c_dueToday k + 1\<rparr> else k
                  | None \<Rightarrow> k))"

definition getStudyStats :: "int \<Rightarrow> card list \<Rightarrow> stats" where
  "getStudyStats today cards =
     (let k = fold (count_card today) cards
                \<lparr>c_new = 0, c_learning = 0, c_review = 0, c_dueToday = 0, c_totalEase = 0\<rparr>
      in \<lparr>total = length cards, newCount = c_new k, learningCount = c_learning k,
          reviewCount = c_review k, dueToday = c_dueToday k,
          averageEase = (if length cards > 0 then c_totalEase k / of_nat (length cards)
                         else DEFAULT_EASE_FACTOR)\<rparr>)"

text \<open>
  \<^verbatim>\<open>calculateRetention\<close>: the pair is \<^verbatim>\<open>(totalReviews, correctReviews)\<close>, updated once
  for each history entry of each card that has a history.
\<close>

definition count_review :: "ReviewRecord \<Rightarrow> nat \<times> nat \<Rightarrow> nat \<times> nat" where
  "count_review review k =
     (case k of (totalReviews, correctReviews) \<Rightarrow>
        (totalReviews + 1, if r_quality review \<ge> 2 then correctReviews + 1 else correctReviews))"

definition count_history :: "heap \<Rightarrow> card \<Rightarrow> nat \<times> nat \<Rightarrow> nat \<times> nat" where
  "count_history h c k =
     (case history (sr c) of None \<Rightarrow> k | Some a \<Rightarrow> fold count_review (arrays h a) k)"

definition calculateRetention :: "heap \<Rightarrow> card list \<Rightarrow> real" where
  "calculateRetention h cards =
     (case fold (count_history h) cards (0, 0) of (totalReviews, correctReviews) \<Rightarrow>
        if totalReviews > 0 then (of_nat correctReviews / of_nat totalReviews) * 100 else 0)"

subsection \<open>The categories of the queue and the reviews of a card list\<close>

text \<open>
  The four categories in which the study queue is described, relative to the reference
  date: a card in state Review whose due date is before it, a card in state Review whose
  due date is that date, a card in state Learning, a card in state New.
\<close>

definition is_overdue :: "int \<Rightarrow> card \<Rightarrow> bool" where
  "is_overdue asOf c =
     (state (sr c) = Review \<and> (case dueDate (sr c) of Some d \<Rightarrow> d < asOf | None \<Rightarrow> False))"

definition is_due_today :: "int \<Rightarrow> card \<Rightarrow> bool" where
  "is_due_today asOf c = (state (sr c) = Review \<and> dueDate (sr c) = Some asOf)"

definition is_learning :: "card \<Rightarrow> bool" where
  "is_learning c = (state (sr c) = Learning)"

definition is_new :: "card \<Rightarrow> bool" where
  "is_new c = (state (sr c) = New)"

text \<open>All history records of the cards of a list, card after card.\<close>

definition all_reviews :: "heap \<Rightarrow> card list \<Rightarrow> ReviewRecord list" where
  "all_reviews h cards =
     concat (map (\<lambda>c. case history_of h (sr c) of None \<Rightarrow> [] | Some rs \<Rightarrow> rs) cards)"

subsection \<open>One rating in a session\<close>

text \<open>
  \<^verbatim>\<open>rateCard\<close> of \<^verbatim>\<open>js/app.js\<close> passes the result to \<^verbatim>\<open>Storage.cards.update\<close> as
  \<^verbatim>\<open>{ sr: srUpdate }\<close>, which replaces the scheduling record of the stored card.
\<close>

definition rateCard ::
  "heap \<Rightarrow> string \<Rightarrow> int \<Rightarrow> real \<Rightarrow> card \<Rightarrow> int \<Rightarrow> settings \<Rightarrow> heap \<times> card" where
  "rateCard h now today rnd c quality stg =
     (case calculateNextReview h now today rnd c quality stg of
        (h', srUpdate) \<Rightarrow> (h', c\<lparr>sr := srUpdate\<rparr>))"

subsection \<open>Concrete inputs\<close>

text \<open>
  A heap whose array at address 0 is empty, the scheduling record that \<^verbatim>\<open>cards.create\<close>
  gives a card (its \<^verbatim>\<open>history: []\<close> at address 0), and two cards built from it.
\<close>

definition heap1 :: heap where
  "heap1 = \<lparr>arrays = (\<lambda>_. []), next_addr = 1\<rparr>"

definition created_sr :: sr_data where
  "created_sr = \<lparr>state = New, easeFactor = 5 / 2, interval = 0, repetitions = 0,
     learningStep = 0, dueDate = None, lastReview = None, history = Some 0\<rparr>"

definition new_card :: card where
  "new_card = \<lparr>card_id = ''c1'', sr = created_sr\<rparr>"

definition review_card :: card where
  "review_card = \<lparr>card_id = ''c2'',
     sr = created_sr\<lparr>state := Review, interval := 30, repetitions := 5\<rparr>\<rparr>"

text \<open>
  The settings of a collection created without any, and four ratings Good in a row of the
  created card under them; the last one with the random draw 0.
\<close>

definition default_settings :: settings where
  "default_settings = create_settings None"

definition good_once :: "heap \<times> card" where
  "good_once = rateCard heap1 ''t1'' 100 (1 / 2) new_card 2 default_settings"

definition good_twice :: "heap \<times> card" where
  "good_twice = rateCard (fst good_once) ''t2'' 100 (1 / 2) (snd good_once) 2 default_settings"

definition good_thrice :: "heap \<times> card" where
  "good_thrice = rateCard (fst good_twice) ''t3'' 101 (1 / 2) (snd good_twice) 2 default_settings"

definition good_fourth :: "heap \<times> card" where
  "good_fourth = rateCard (fst good_thrice) ''t4'' 107 0 (snd good_thrice) 2 default_settings"




text \<open>
  Three cards for the statistics, each with a history of its own or none, and a heap in
  which the array at address 0 holds one review rated 3 and one rated 0 and the array at
  address 1 one review rated 2.
\<close>

definition stats_cards :: "card list" where
  "stats_cards = [new_card,
     \<lparr>card_id = ''c6'', sr = created_sr\<lparr>state := Review, history := Some 1\<rparr>\<rparr>,
     \<lparr>card_id = ''c7'', sr = created_sr\<lparr>easeFactor := 2, history := None\<rparr>\<rparr>]"

definition stats_heap :: heap where
  "stats_heap = \<lparr>arrays = (\<lambda>_. [])
       (0 := [\<lparr>r_date = ''t1'', r_quality = 3, r_interval = 0, r_easeFactor = 5 / 2\<rparr>,
              \<lparr>r_date = ''t2'', r_quality = 0, r_interval = 4, r_easeFactor = 5 / 2\<rparr>],
        1 := [\<lparr>r_date = ''t3'', r_quality = 2, r_interval = 0, r_easeFactor = 5 / 2\<rparr>]),
     next_addr = 2\<rparr>"

text \<open>
  Settings with a single learning step, and settings in which every numeric property is
  0 and the list of learning steps is empty.
\<close>

definition one_step_settings :: settings where
  "one_step_settings = no_settings\<lparr>learningSteps := Some [5]\<rparr>"

definition zero_settings :: settings where
  "zero_settings = \<lparr>newCardsPerDay = Some 0, reviewsPerDay = Some 0, learningSteps = Some [],
     graduatingInterval = Some 0, easyInterval = Some 0, startingEase = None\<rparr>"

section \<open>Properties of the interval engine\<close>

lemmas example_defs = heap1_def created_sr_def new_card_def review_card_def no_settings_def

subsection \<open>What one call does to the record and to the heap\<close>

lemma calculateNextReview_snd:
  "snd (calculateNextReview h now today rnd c quality stg) =
     (let s = (sr c)\<lparr>history := Some (case history (sr c) of None \<Rightarrow> next_addr h | Some a \<Rightarrow> a),
                     lastReview := Some now\<rparr>
      in if state (sr c) = New \<or> state (sr c) = Learning
         then handleLearningCard s quality
                (or_array (learningSteps stg) DEFAULT_LEARNING_STEPS)
                (or_number (graduatingInterval stg) DEFAULT_GRADUATING_INTERVAL)
                (or_number (easyInterval stg) DEFAULT_EASY_INTERVAL) today
         else handleReviewCard rnd s quality today)"
  by (simp add: calculateNextReview_def array_new_def Let_def split: option.split)

lemma calculateNextReview_heap:
  "arrays (fst (calculateNextReview h now today rnd c quality stg)) =
     (case history (sr c) of
        None \<Rightarrow> (arrays h)(next_addr h :=
                  [\<lparr>r_date = now, r_quality = quality, r_interval = interval (sr c),
                    r_easeFactor = easeFactor (sr c)\<rparr>])
      | Some a \<Rightarrow> (arrays h)(a := arrays h a @
                  [\<lparr>r_date = now, r_quality = quality, r_interval = interval (sr c),
                    r_easeFactor = easeFactor (sr c)\<rparr>]))"
  by (simp add: calculateNextReview_def array_new_def array_push_def Let_def split: option.split)

lemma handleLearningCard_keeps:
  "history (handleLearningCard s q ls g e t) = history s"
  "lastReview (handleLearningCard s q ls g e t) = lastReview s"
  "easeFactor (handleLearningCard s q ls g e t) = easeFactor s"
  by (simp_all add: handleLearningCard_def Let_def)

lemma handleReviewCard_keeps:
  "history (handleReviewCard rnd s q t) = history s"
  "lastReview (handleReviewCard rnd s q t) = lastReview s"
  by (simp_all add: handleReviewCard_def Let_def)

lemma handleReviewCard_easeFactor:
  "MIN_EASE_FACTOR \<le> easeFactor (handleReviewCard rnd s q t)"
  by (simp add: handleReviewCard_def Let_def)

lemma calculateNextReview_history:
  "history (snd (calculateNextReview h now today rnd c quality stg)) =
     Some (case history (sr c) of None \<Rightarrow> next_addr h | Some a \<Rightarrow> a)"
  "lastReview (snd (calculateNextReview h now today rnd c quality stg)) = Some now"
  by (simp_all add: calculateNextReview_snd Let_def handleLearningCard_keeps handleReviewCard_keeps)

lemma calculateNextReview_Review:
  assumes "state (sr c) = Review"
  shows "snd (calculateNextReview h now today rnd c quality stg) =
           handleReviewCard rnd
             ((sr c)\<lparr>history := Some (case history (sr c) of None \<Rightarrow> next_addr h | Some a \<Rightarrow> a),
                     lastReview := Some now\<rparr>) quality today"
  using assms by (simp add: calculateNextReview_snd Let_def)

lemma calculateNextReview_not_Review:
  assumes "state (sr c) \<noteq> Review"
  shows "snd (calculateNextReview h now today rnd c quality stg) =
           handleLearningCard
             ((sr c)\<lparr>history := Some (case history (sr c) of None \<Rightarrow> next_addr h | Some a \<Rightarrow> a),
                     lastReview := Some now\<rparr>) quality
             (or_array (learningSteps stg) DEFAULT_LEARNING_STEPS)
             (or_number (graduatingInterval stg) DEFAULT_GRADUATING_INTERVAL)
             (or_number (easyInterval stg) DEFAULT_EASY_INTERVAL) today"
  using assms by (cases "state (sr c)") (simp_all add: calculateNextReview_snd Let_def)


text \<open>
  The branch of \<^verbatim>\<open>handleReviewCard\<close> for a quality other than 0, with the values of its
  local variables named.
\<close>

lemma handleReviewCard_nonzero:
  assumes "quality \<noteq> 0"
    and ef: "ef = max MIN_EASE_FACTOR (easeFactor s
               + (1 / 10 - (3 - of_int quality) * (8 / 100 + (3 - of_int quality) * (2 / 100))))"
    and base: "base = (if repetitions s = 0 then 1
                       else if repetitions s = 1 then 6
                       else Math_round (of_int (interval s) * ef))"
    and modified: "modified = (if quality = 1 then Math_round (of_int base * (8 / 10))
                               else if quality = 3 then Math_round (of_int base * (13 / 10))
                               else base)"
    and final: "final = max 1 (applyFuzz rnd modified)"
  shows "handleReviewCard rnd s quality today =
           s\<lparr>easeFactor := ef, interval := final, dueDate := Some (today + final),
             repetitions := repetitions s + 1\<rparr>"
proof -
  have q0: "(quality = 0) = False"
    using assms(1) by simp
  have b: "(if repetitions (s\<lparr>easeFactor := ef\<rparr>) = 0 then 1
            else if repetitions (s\<lparr>easeFactor := ef\<rparr>) = 1 then 6
            else Math_round (of_int (interval (s\<lparr>easeFactor := ef\<rparr>))
                   * easeFactor (s\<lparr>easeFactor := ef\<rparr>))) = base"
    by (simp add: base)
  have "handleReviewCard rnd s quality today =
          s\<lparr>easeFactor := ef, interval := final, dueDate := Some (addDays today final),
            repetitions := repetitions (s\<lparr>easeFactor := ef\<rparr>) + 1\<rparr>"
    unfolding handleReviewCard_def
    by (simp only: q0 if_False Let_def ef [symmetric] b modified [symmetric] final [symmetric])
  then show ?thesis
    by (simp add: addDays_def)
qed

lemma sr_rateCard:
  "sr (snd (rateCard h now today rnd c quality stg))
     = snd (calculateNextReview h now today rnd c quality stg)"
  by (simp add: rateCard_def split: prod.split)

subsection \<open>Successful review\<close>




subsection \<open>Lapse\<close>

text \<open>
  C3. A card in state Review rated 0 goes to Learning with learning step 0 and repetitions
  0; its ease factor is \<open>max 1.3 (easeFactor - 0.2)\<close>, its interval
  \<open>max 1 (round (interval * 0.5))\<close>, it is due today, and the random draw has no
  influence on the result. With interval 30, ease factor 2.5 and 5 repetitions the result
  has ease factor 2.3 and interval 15.
\<close>

theorem review_lapse:
  assumes "state (sr c) = Review"
  shows "(let r = snd (calculateNextReview h now today rnd c 0 stg) in
           state r = Learning \<and> learningStep r = 0 \<and> repetitions r = 0
           \<and> easeFactor r = max (13 / 10) (easeFactor (sr c) - 2 / 10)
           \<and> interval r = max 1 (Math_round (of_int (interval (sr c)) * (5 / 10)))
           \<and> dueDate r = Some today
           \<and> r = snd (calculateNextReview h now today rnd' c 0 stg)
           \<and> (interval (sr c) = 30 \<and> easeFactor (sr c) = 5 / 2 \<and> repetitions (sr c) = 5
                \<longrightarrow> state r = Learning \<and> learningStep r = 0 \<and> repetitions r = 0
                    \<and> easeFactor r = 23 / 10 \<and> interval r = 15))"
  using assms
  by (simp add: calculateNextReview_snd handleReviewCard_def Let_def Math_round_def
      MIN_EASE_FACTOR_def)

theorem review_lapse_witness:
  "state (sr review_card) = Review \<and> interval (sr review_card) = 30
   \<and> easeFactor (sr review_card) = 5 / 2 \<and> repetitions (sr review_card) = 5
   \<and> state (snd (calculateNextReview heap1 ''t'' 100 (9 / 10) review_card 0 no_settings)) = Learning
   \<and> easeFactor (snd (calculateNextReview heap1 ''t'' 100 (9 / 10) review_card 0 no_settings)) = 23 / 10
   \<and> interval (snd (calculateNextReview heap1 ''t'' 100 (9 / 10) review_card 0 no_settings)) = 15"
proof -
  have h1: "state (sr review_card) = Review"
    by (simp add: example_defs)
  have h2: "interval (sr review_card) = 30 \<and> easeFactor (sr review_card) = 5 / 2
            \<and> repetitions (sr review_card) = 5"
    by (simp add: example_defs)
  show ?thesis
    using review_lapse [OF h1, of heap1 "''t''" 100 "9 / 10" no_settings "1 / 10"] h1 h2
    by (auto simp add: Let_def Math_round_def)
qed

subsection \<open>The lower bound of the ease factor\<close>

text \<open>
  C7. If the ease factor of the card is at least 1.3 and the quality is one of 0, 1, 2, 3,
  the ease factor of the returned record is at least 1.3.
\<close>

theorem ease_floor:
  assumes "13 / 10 \<le> easeFactor (sr c)" and "quality \<in> {0, 1, 2, 3}"
  shows "13 / 10 \<le> easeFactor (snd (calculateNextReview h now today rnd c quality stg))"
proof (cases "state (sr c) = New \<or> state (sr c) = Learning")
  case True
  then show ?thesis
    using assms(1)
    by (simp add: calculateNextReview_snd Let_def handleLearningCard_keeps)
next
  case False
  then have "MIN_EASE_FACTOR
      \<le> easeFactor (snd (calculateNextReview h now today rnd c quality stg))"
    by (simp add: calculateNextReview_snd Let_def handleReviewCard_easeFactor)
  then show ?thesis
    by (simp add: MIN_EASE_FACTOR_def)
qed

theorem ease_floor_witness:
  "13 / 10 \<le> easeFactor (sr review_card) \<and> (1::int) \<in> {0, 1, 2, 3}
   \<and> 13 / 10 \<le> easeFactor
        (snd (calculateNextReview heap1 ''t'' 100 (1 / 2) review_card 1 no_settings))"
  using ease_floor [of review_card 1 heap1 "''t''" 100 "1 / 2" no_settings]
  by (simp add: example_defs)

subsection \<open>The history record\<close>

text \<open>
  Every call leaves exactly one more record in the history of its result: the heap holds,
  at the address the result carries, the former entries followed by the record of this
  rating with the interval and ease factor the card had before the call.
\<close>

lemma calculateNextReview_appends:
  "history_of (fst (calculateNextReview h now today rnd c quality stg))
              (snd (calculateNextReview h now today rnd c quality stg))
     = Some ((case history_of h (sr c) of None \<Rightarrow> [] | Some rs \<Rightarrow> rs)
             @ [\<lparr>r_date = now, r_quality = quality, r_interval = interval (sr c),
                 r_easeFactor = easeFactor (sr c)\<rparr>])"
  by (simp add: history_of_def calculateNextReview_heap calculateNextReview_history
      split: option.split)

text \<open>
  C4. The record is pushed onto the array that the input card itself refers to: the copy
  of \<^verbatim>\<open>card.sr\<close> is shallow. For the created card, whose history is the empty array at
  address 0, one call with quality 2 leaves that same array with one entry, so the
  history read through the input card has grown, and the result refers to the same
  address.
\<close>

theorem history_push_aliases_input:
  "history_of heap1 (sr new_card) = Some []
   \<and> history_of (fst (calculateNextReview heap1 ''t'' 100 (1 / 2) new_card 2 no_settings)) (sr new_card)
       = Some [\<lparr>r_date = ''t'', r_quality = 2, r_interval = 0, r_easeFactor = 5 / 2\<rparr>]
   \<and> history (snd (calculateNextReview heap1 ''t'' 100 (1 / 2) new_card 2 no_settings))
       = history (sr new_card)"
  by (simp add: history_of_def calculateNextReview_heap calculateNextReview_history example_defs)

subsection \<open>Inputs outside the contract\<close>




subsection \<open>A card in state Review without a due date\<close>




subsection \<open>Rating Good repeatedly from a new card\<close>

lemma learning_step:
  assumes "state (sr c) \<noteq> Review" and "quality \<noteq> 0" and "quality \<noteq> 3"
    and "r = snd (calculateNextReview h now today rnd c quality stg)"
    and "steps = or_array (learningSteps stg) DEFAULT_LEARNING_STEPS"
    and "grad = or_number (graduatingInterval stg) DEFAULT_GRADUATING_INTERVAL"
  shows "easeFactor r = easeFactor (sr c)"
    and "learningStep (sr c) + 1 < length steps \<Longrightarrow>
           state r = Learning \<and> learningStep r = learningStep (sr c) + 1
           \<and> interval r = interval (sr c) \<and> repetitions r = repetitions (sr c)"
    and "length steps \<le> learningStep (sr c) + 1 \<Longrightarrow>
           state r = Review \<and> learningStep r = 0 \<and> interval r = grad \<and> repetitions r = 1"
  using assms
  by (simp_all add: calculateNextReview_not_Review handleLearningCard_def Let_def)

lemma review_step_good:
  assumes "state (sr c) = Review" and "easeFactor (sr c) = 5 / 2"
    and "r = snd (calculateNextReview h now today rnd c 2 stg)"
  shows "state r = Review" and "easeFactor r = 5 / 2"
    and "repetitions r = repetitions (sr c) + 1"
    and "repetitions (sr c) = 1 \<Longrightarrow> interval r = 6"
    and "repetitions (sr c) = 2 \<Longrightarrow> interval (sr c) = 6 \<Longrightarrow>
           interval r = max 1 (Math_round (15 + (rnd * 2 - 1) * (3 / 4)))"
proof -
  define s where
    "s = (sr c)\<lparr>history := Some (case history (sr c) of None \<Rightarrow> next_addr h | Some a \<Rightarrow> a),
                   lastReview := Some now\<rparr>"
  define base where
    "base = (if repetitions s = 0 then 1
             else if repetitions s = 1 then 6
             else Math_round (of_int (interval s) * (5 / 2)))"
  define final where "final = max 1 (applyFuzz rnd base)"
  have "r = handleReviewCard rnd s 2 today"
    using assms(1,3) by (simp add: calculateNextReview_Review s_def)
  also have "\<dots> = s\<lparr>easeFactor := 5 / 2, interval := final, dueDate := Some (today + final),
                     repetitions := repetitions s + 1\<rparr>"
    by (rule handleReviewCard_nonzero [where base = base and modified = base])
      (simp_all add: base_def final_def s_def assms(2) MIN_EASE_FACTOR_def)
  finally have r: "r = s\<lparr>easeFactor := 5 / 2, interval := final, dueDate := Some (today + final),
                     repetitions := repetitions s + 1\<rparr>" .
  show "state r = Review" and "easeFactor r = 5 / 2"
    and "repetitions r = repetitions (sr c) + 1"
    using assms(1) by (simp_all add: r s_def)
  show "interval r = 6" if "repetitions (sr c) = 1"
    using that by (simp add: r final_def base_def s_def applyFuzz_def)
  show "interval r = max 1 (Math_round (15 + (rnd * 2 - 1) * (3 / 4)))"
    if "repetitions (sr c) = 2" and "interval (sr c) = 6"
    using that by (simp add: r final_def base_def s_def applyFuzz_def Math_round_def)
qed

lemma fuzz_15:
  assumes "0 \<le> rnd" and "rnd < 1"
  shows "max 1 (Math_round (15 + (rnd * 2 - 1) * (3 / 4))) \<in> {14, 15, 16}"
proof -
  have lo: "(14::real) \<le> 15 + (rnd * 2 - 1) * (3 / 4) + 1 / 2"
    using assms(1) by argo
  have hi: "15 + (rnd * 2 - 1) * (3 / 4) + 1 / 2 < (17::real)"
    using assms(2) by argo
  have "14 \<le> Math_round (15 + (rnd * 2 - 1) * (3 / 4))"
    unfolding Math_round_def using lo by (simp only: le_floor_iff of_int_numeral)
  moreover have "Math_round (15 + (rnd * 2 - 1) * (3 / 4)) \<le> 16"
    unfolding Math_round_def using hi by (simp only: floor_le_iff of_int_numeral)
  ultimately show ?thesis
    by (simp add: max_def) arith
qed

lemmas progress_defs = good_once_def good_twice_def good_thrice_def good_fourth_def
  default_settings_def create_settings_def

text \<open>
  With the default learning steps \<open>[1, 10]\<close> the first rating Good only moves the card to
  learning step 1, the second graduates it with interval 1, and the third gives interval
  6, not 15. A fourth rating gives 14 when the random draw is 0.
\<close>

theorem three_good_ratings_counterexample:
  "interval (sr (snd good_once)) = 0 \<and> interval (sr (snd good_twice)) = 1
   \<and> interval (sr (snd good_thrice)) = 6 \<and> interval (sr (snd good_thrice)) \<noteq> 15
   \<and> interval (sr (snd good_fourth)) = 14"
  by (simp add: progress_defs sr_rateCard calculateNextReview_snd handleLearningCard_def
      handleReviewCard_def applyFuzz_def Math_round_def Let_def or_array_def or_number_def
      addDays_def MIN_EASE_FACTOR_def DEFAULT_LEARNING_STEPS_def DEFAULT_GRADUATING_INTERVAL_def
      DEFAULT_EASY_INTERVAL_def example_defs)

text \<open>
  C6, as the code has it. From a new card with ease factor 2.5, learning steps
  \<open>[1, 10]\<close> and graduating interval 1, rating Good again and again: the first rating
  leaves the card in Learning with interval 0, the second graduates it with interval 1,
  the third gives interval 6, and the fourth gives the rounded \<open>6 * 2.5 = 15\<close> with
  fuzz applied, which is 14, 15 or 16, and 15 when the draw is 0.5. The ease factor is
  2.5 after each rating.
\<close>

theorem good_ratings_progress:
  assumes "state (sr c) = New" and "easeFactor (sr c) = 5 / 2" and "interval (sr c) = 0"
    and "repetitions (sr c) = 0" and "learningStep (sr c) = 0"
    and "learningSteps stg = Some [1, 10]" and "graduatingInterval stg = Some 1"
    and "R1 = rateCard h now1 today1 rnd1 c 2 stg"
    and "R2 = rateCard (fst R1) now2 today2 rnd2 (snd R1) 2 stg"
    and "R3 = rateCard (fst R2) now3 today3 rnd3 (snd R2) 2 stg"
    and "R4 = rateCard (fst R3) now4 today4 rnd4 (snd R3) 2 stg"
    and "0 \<le> rnd4" and "rnd4 < 1"
  shows "state (sr (snd R1)) = Learning \<and> interval (sr (snd R1)) = 0
         \<and> state (sr (snd R2)) = Review \<and> interval (sr (snd R2)) = 1
         \<and> interval (sr (snd R3)) = 6
         \<and> interval (sr (snd R4)) \<in> {14, 15, 16}
         \<and> (rnd4 = 1 / 2 \<longrightarrow> interval (sr (snd R4)) = 15)
         \<and> easeFactor (sr (snd R1)) = 5 / 2 \<and> easeFactor (sr (snd R2)) = 5 / 2
         \<and> easeFactor (sr (snd R3)) = 5 / 2 \<and> easeFactor (sr (snd R4)) = 5 / 2"
proof -
  have steps: "[1, 10] = or_array (learningSteps stg) DEFAULT_LEARNING_STEPS"
    and grad: "1 = or_number (graduatingInterval stg) DEFAULT_GRADUATING_INTERVAL"
    using assms(6,7) by (simp_all add: or_array_def or_number_def)
  have r1: "sr (snd R1) = snd (calculateNextReview h now1 today1 rnd1 c 2 stg)"
    and r2: "sr (snd R2) = snd (calculateNextReview (fst R1) now2 today2 rnd2 (snd R1) 2 stg)"
    and r3: "sr (snd R3) = snd (calculateNextReview (fst R2) now3 today3 rnd3 (snd R2) 2 stg)"
    and r4: "sr (snd R4) = snd (calculateNextReview (fst R3) now4 today4 rnd4 (snd R3) 2 stg)"
    using assms(8-11) by (simp_all add: sr_rateCard)
  have n1: "state (sr c) \<noteq> Review"
    using assms(1) by simp
  have e1: "easeFactor (sr (snd R1)) = 5 / 2"
    using learning_step(1) [OF n1 _ _ r1 steps grad] assms(2) by simp
  have s1: "state (sr (snd R1)) = Learning \<and> learningStep (sr (snd R1)) = 1
            \<and> interval (sr (snd R1)) = 0 \<and> repetitions (sr (snd R1)) = 0"
    using learning_step(2) [OF n1 _ _ r1 steps grad] assms(3-5) by simp
  have n2: "state (sr (snd R1)) \<noteq> Review"
    using s1 by simp
  have e2: "easeFactor (sr (snd R2)) = 5 / 2"
    using learning_step(1) [OF n2 _ _ r2 steps grad] e1 by simp
  have s2: "state (sr (snd R2)) = Review \<and> interval (sr (snd R2)) = 1
            \<and> repetitions (sr (snd R2)) = 1"
    using learning_step(3) [OF n2 _ _ r2 steps grad] s1 by simp
  have s3: "state (sr (snd R3)) = Review \<and> easeFactor (sr (snd R3)) = 5 / 2
            \<and> repetitions (sr (snd R3)) = 2 \<and> interval (sr (snd R3)) = 6"
    using review_step_good(1-4) [OF _ e2 r3] s2 by simp
  have e4: "easeFactor (sr (snd R4)) = 5 / 2"
    using review_step_good(2) [OF _ _ r4] s3 by simp
  have i4: "interval (sr (snd R4)) = max 1 (Math_round (15 + (rnd4 * 2 - 1) * (3 / 4)))"
    using review_step_good(5) [OF _ _ r4] s3 by simp
  have "interval (sr (snd R4)) \<in> {14, 15, 16}"
    unfolding i4 by (rule fuzz_15 [OF assms(12,13)])
  moreover have "rnd4 = 1 / 2 \<longrightarrow> interval (sr (snd R4)) = 15"
    unfolding i4 by (simp add: Math_round_def)
  ultimately show ?thesis
    using e1 s1 e2 s2 s3 e4 by simp
qed

theorem good_ratings_progress_witness:
  "state (sr new_card) = New \<and> easeFactor (sr new_card) = 5 / 2 \<and> interval (sr new_card) = 0
   \<and> repetitions (sr new_card) = 0 \<and> learningStep (sr new_card) = 0
   \<and> learningSteps default_settings = Some [1, 10]
   \<and> graduatingInterval default_settings = Some 1 \<and> (0::real) \<le> 0 \<and> (0::real) < 1
   \<and> interval (sr (snd good_once)) = 0 \<and> interval (sr (snd good_twice)) = 1
   \<and> interval (sr (snd good_thrice)) = 6
   \<and> interval (sr (snd good_fourth)) \<in> {14, 15, 16}
   \<and> easeFactor (sr (snd good_fourth)) = 5 / 2"
proof -
  have c: "state (sr new_card) = New" "easeFactor (sr new_card) = 5 / 2"
    "interval (sr new_card) = 0" "repetitions (sr new_card) = 0" "learningStep (sr new_card) = 0"
    by (simp_all add: example_defs)
  have s: "learningSteps default_settings = Some [1, 10]"
    "graduatingInterval default_settings = Some 1"
    by (simp_all add: default_settings_def create_settings_def or_array_def or_number_def)
  have d: "(0::real) \<le> 0" "(0::real) < 1"
    by simp_all
  show ?thesis
    using good_ratings_progress [OF c s good_once_def good_twice_def good_thrice_def
        good_fourth_def d] c s
    by simp
qed

section \<open>Properties of the study queue\<close>

lemmas category_defs = is_overdue_def is_due_today_def is_learning_def is_new_def

lemma categorise_cases:
  "categorise today c b =
     b\<lparr>overdue := overdue b @ (if is_overdue today c then [c] else []),
       dueReview := dueReview b @ (if is_due_today today c then [c] else []),
       learning := learning b @ (if is_learning c then [c] else []),
       newCards := newCards b @ (if is_new c then [c] else [])\<rparr>"
  by (cases "state (sr c)"; cases "dueDate (sr c)")
    (simp_all add: categorise_def category_defs)

lemma fold_categorise:
  "fold (categorise today) cards b =
     b\<lparr>overdue := overdue b @ filter (is_overdue today) cards,
       dueReview := dueReview b @ filter (is_due_today today) cards,
       learning := learning b @ filter is_learning cards,
       newCards := newCards b @ filter is_new cards\<rparr>"
proof (induction cards arbitrary: b)
  case Nil
  show ?case by simp
next
  case (Cons c cards)
  have "fold (categorise today) (c # cards) b
          = fold (categorise today) cards (categorise today c b)"
    by simp
  also have "\<dots> = (categorise today c b)
      \<lparr>overdue := overdue (categorise today c b) @ filter (is_overdue today) cards,
       dueReview := dueReview (categorise today c b) @ filter (is_due_today today) cards,
       learning := learning (categorise today c b) @ filter is_learning cards,
       newCards := newCards (categorise today c b) @ filter is_new cards\<rparr>"
    by (rule Cons.IH)
  also have "\<dots> = b
      \<lparr>overdue := overdue b @ filter (is_overdue today) (c # cards),
       dueReview := dueReview b @ filter (is_due_today today) (c # cards),
       learning := learning b @ filter is_learning (c # cards),
       newCards := newCards b @ filter is_new (c # cards)\<rparr>"
    unfolding categorise_cases by simp
  finally show ?case .
qed

lemma sortStudyQueue_eq:
  "sortStudyQueue today cards =
     sort_key due_key (filter (is_overdue today) cards)
     @ sort_key (\<lambda>c. easeFactor (sr c)) (filter (is_due_today today) cards)
     @ sort_key (\<lambda>c. learningStep (sr c)) (filter is_learning cards)
     @ filter is_new cards"
  by (simp add: sortStudyQueue_def fold_categorise Let_def)




text \<open>
  The cards that \<^verbatim>\<open>getDueCards\<close> keeps are those of the four categories, and the queue
  of a session is the sorted list of the capped cards that are not New followed by the
  capped New cards.
\<close>

lemma getDueCards_eq:
  "getDueCards today cards
     = filter (\<lambda>c. is_new c \<or> is_learning c \<or> is_overdue today c \<or> is_due_today today c) cards"
  unfolding getDueCards_def
proof (rule filter_cong [OF refl])
  fix x
  show "(if state (sr x) = New then True
         else if state (sr x) = Learning then True
         else (case dueDate (sr x) of Some d \<Rightarrow> d \<le> today | None \<Rightarrow> False))
        = (is_new x \<or> is_learning x \<or> is_overdue today x \<or> is_due_today today x)"
    by (cases "state (sr x)"; cases "dueDate (sr x)"; auto simp add: category_defs)
qed

lemma startStudySession_queue_eq:
  "startStudySession_queue today cs allCards =
     sortStudyQueue today
       (slice0 (filter (\<lambda>c. \<not> is_new c) (getDueCards today allCards))
               (or_number (Option.bind cs reviewsPerDay) 200)
        @ slice0 (filter is_new allCards) (or_number (Option.bind cs newCardsPerDay) 20))"
proof -
  have "filter (\<lambda>c. state (sr c) = New) (getDueCards today allCards) = filter is_new allCards"
    unfolding getDueCards_def filter_filter
    by (rule filter_cong [OF refl]) (auto simp add: is_new_def)
  moreover have "(\<lambda>c. state (sr c) \<noteq> New) = (\<lambda>c. \<not> is_new c)"
    by (simp add: is_new_def)
  ultimately show ?thesis
    by (simp add: startStudySession_queue_def Let_def)
qed




section \<open>Properties of the statistics\<close>

lemma count_card_totalEase:
  "c_totalEase (count_card today c k) = c_totalEase k + easeFactor (sr c)"
  by (simp add: count_card_def Let_def split: option.split)

lemma fold_count_card_totalEase:
  "c_totalEase (fold (count_card today) cards k)
     = c_totalEase k + (\<Sum>c\<leftarrow>cards. easeFactor (sr c))"
  by (induction cards arbitrary: k) (simp_all add: count_card_totalEase)

lemma fold_count_review:
  "fold count_review rs (t, k)
     = (t + length rs, k + length (filter (\<lambda>r. 2 \<le> r_quality r) rs))"
  by (induction rs arbitrary: t k) (simp_all add: count_review_def)

lemma count_history_eq:
  "count_history h c (t, k) =
     (t + length (case history_of h (sr c) of None \<Rightarrow> [] | Some rs \<Rightarrow> rs),
      k + length (filter (\<lambda>r. 2 \<le> r_quality r)
                   (case history_of h (sr c) of None \<Rightarrow> [] | Some rs \<Rightarrow> rs)))"
  by (simp add: count_history_def history_of_def fold_count_review split: option.split)

lemma fold_count_history:
  "fold (count_history h) cards (t, k)
     = (t + length (all_reviews h cards),
        k + length (filter (\<lambda>r. 2 \<le> r_quality r) (all_reviews h cards)))"
proof (induction cards arbitrary: t k)
  case Nil
  show ?case by (simp add: all_reviews_def)
next
  case (Cons c cards)
  have "fold (count_history h) (c # cards) (t, k)
          = fold (count_history h) cards (count_history h c (t, k))"
    by simp
  also have "\<dots> = (t + length (all_reviews h (c # cards)),
        k + length (filter (\<lambda>r. 2 \<le> r_quality r) (all_reviews h (c # cards))))"
    unfolding count_history_eq Cons.IH by (simp add: all_reviews_def)
  finally show ?case .
qed

text \<open>
  C9. The average ease of \<^verbatim>\<open>getStudyStats\<close> is the sum of the ease factors of the cards
  divided by their number, and 2.5 for the empty list, for which the total and the number
  due today are 0. \<^verbatim>\<open>calculateRetention\<close> is 100 times the number of history records
  with quality at least 2 divided by the number of all history records of the cards, and
  0 when there is no record.
\<close>

theorem stats_average_and_retention:
  "averageEase (getStudyStats today cards)
     = (if cards = [] then 5 / 2
        else (\<Sum>c\<leftarrow>cards. easeFactor (sr c)) / of_nat (length cards))
   \<and> (cards = [] \<longrightarrow> total (getStudyStats today cards) = 0
                      \<and> dueToday (getStudyStats today cards) = 0)
   \<and> calculateRetention h cards
     = (if all_reviews h cards = [] then 0
        else 100 * of_nat (length (filter (\<lambda>r. 2 \<le> r_quality r) (all_reviews h cards)))
             / of_nat (length (all_reviews h cards)))"
proof (intro conjI impI)
  show "averageEase (getStudyStats today cards)
     = (if cards = [] then 5 / 2
        else (\<Sum>c\<leftarrow>cards. easeFactor (sr c)) / of_nat (length cards))"
    by (simp add: getStudyStats_def Let_def fold_count_card_totalEase DEFAULT_EASE_FACTOR_def)
  show "total (getStudyStats today cards) = 0" and "dueToday (getStudyStats today cards) = 0"
    if "cards = []"
    using that by (simp_all add: getStudyStats_def)
  show "calculateRetention h cards
     = (if all_reviews h cards = [] then 0
        else 100 * of_nat (length (filter (\<lambda>r. 2 \<le> r_quality r) (all_reviews h cards)))
             / of_nat (length (all_reviews h cards)))"
    by (simp add: calculateRetention_def fold_count_history)
qed

theorem stats_average_and_retention_witness:
  "averageEase (getStudyStats 100 stats_cards) = 7 / 3
   \<and> averageEase (getStudyStats 100 []) = 5 / 2
   \<and> total (getStudyStats 100 []) = 0 \<and> dueToday (getStudyStats 100 []) = 0
   \<and> calculateRetention stats_heap stats_cards = 200 / 3
   \<and> calculateRetention stats_heap [] = 0"
proof -
  have a: "all_reviews stats_heap stats_cards =
      [\<lparr>r_date = ''t1'', r_quality = 3, r_interval = 0, r_easeFactor = 5 / 2\<rparr>,
       \<lparr>r_date = ''t2'', r_quality = 0, r_interval = 4, r_easeFactor = 5 / 2\<rparr>,
       \<lparr>r_date = ''t3'', r_quality = 2, r_interval = 0, r_easeFactor = 5 / 2\<rparr>]"
    by (simp add: all_reviews_def history_of_def stats_cards_def stats_heap_def example_defs)
  have b: "(\<Sum>c\<leftarrow>stats_cards. easeFactor (sr c)) = 7" "length stats_cards = 3" "stats_cards \<noteq> []"
    by (simp_all add: stats_cards_def example_defs)
  have e: "all_reviews stats_heap [] = []"
    by (simp add: all_reviews_def)
  show ?thesis
    using stats_average_and_retention [of 100 stats_cards stats_heap]
      stats_average_and_retention [of 100 "[]" stats_heap]
    by (simp add: a b e)
qed

section \<open>Settings that are zero or empty\<close>

lemma filter_is_new_sorted_other:
  assumes "\<And>x. P x \<Longrightarrow> \<not> is_new x"
  shows "filter is_new (sort_key f (filter P xs)) = []"
  using assms by (auto simp add: filter_empty_conv)

lemma filter_is_new_sortStudyQueue:
  "filter is_new (sortStudyQueue today xs) = filter is_new xs"
proof -
  have 1: "filter is_new (sort_key due_key (filter (is_overdue today) xs)) = []"
    by (rule filter_is_new_sorted_other) (simp add: category_defs)
  have 2: "filter is_new (sort_key (\<lambda>c. easeFactor (sr c)) (filter (is_due_today today) xs)) = []"
    by (rule filter_is_new_sorted_other) (simp add: category_defs)
  have 3: "filter is_new (sort_key (\<lambda>c. learningStep (sr c)) (filter is_learning xs)) = []"
    by (rule filter_is_new_sorted_other) (simp add: category_defs)
  show ?thesis
    unfolding sortStudyQueue_eq filter_append 1 2 3 by simp
qed

lemma mset_sortStudyQueue:
  assumes "\<forall>c\<in>set xs. is_new c \<or> is_learning c \<or> is_overdue today c \<or> is_due_today today c"
  shows "mset (sortStudyQueue today xs) = mset xs"
  using assms
proof (induction xs)
  case Nil
  show ?case by (simp add: sortStudyQueue_eq)
next
  case (Cons c xs)
  then have IH: "mset (sortStudyQueue today xs) = mset xs"
    by simp
  have "is_new c \<or> is_learning c \<or> is_overdue today c \<or> is_due_today today c"
    using Cons.prems by simp
  then have "mset (sortStudyQueue today (c # xs)) = add_mset c (mset (sortStudyQueue today xs))"
    by (auto simp add: sortStudyQueue_eq category_defs)
  then show ?case
    by (simp add: IH)
qed

text \<open>
  C10. A numeric setting that is 0 is replaced by the default, as a missing one is. With
  \<^verbatim>\<open>easyInterval\<close> 0 a New or Learning card rated 3 gets interval 4; with
  \<^verbatim>\<open>graduatingInterval\<close> 0 a card that graduates gets interval 1;
  \<^verbatim>\<open>collections.create\<close> stores 20, 200, 1 and 4 for \<^verbatim>\<open>newCardsPerDay\<close>,
  \<^verbatim>\<open>reviewsPerDay\<close>, \<^verbatim>\<open>graduatingInterval\<close> and \<^verbatim>\<open>easyInterval\<close> given as 0; with
  \<^verbatim>\<open>newCardsPerDay\<close> 0 the New cards of the session queue are the first 20 New cards,
  and with \<^verbatim>\<open>reviewsPerDay\<close> 0 as well the queue consists of the first 200 due cards
  that are not New and those 20. An empty list of learning steps is kept: it is stored as
  it is, and under it a New or Learning card at step 0 rated neither 0 nor 3 graduates at
  once, where under the default it stays in Learning.
\<close>

theorem zero_settings_fall_back:
  "(state (sr c) \<noteq> Review \<longrightarrow>
      interval (snd (calculateNextReview h now today rnd c 3 (stg\<lparr>easyInterval := Some 0\<rparr>))) = 4)
   \<and> (state (sr c) \<noteq> Review \<and> quality \<noteq> 0 \<and> quality \<noteq> 3
        \<and> length (or_array (learningSteps stg) [1, 10]) \<le> learningStep (sr c) + 1 \<longrightarrow>
      interval (snd (calculateNextReview h now today rnd c quality
                       (stg\<lparr>graduatingInterval := Some 0\<rparr>))) = 1)
   \<and> (newCardsPerDay ds = Some 0 \<longrightarrow> newCardsPerDay (create_settings (Some ds)) = Some 20)
   \<and> (reviewsPerDay ds = Some 0 \<longrightarrow> reviewsPerDay (create_settings (Some ds)) = Some 200)
   \<and> (graduatingInterval ds = Some 0 \<longrightarrow>
        graduatingInterval (create_settings (Some ds)) = Some 1)
   \<and> (easyInterval ds = Some 0 \<longrightarrow> easyInterval (create_settings (Some ds)) = Some 4)
   \<and> (learningSteps ds = Some [] \<longrightarrow> learningSteps (create_settings (Some ds)) = Some [])
   \<and> filter is_new (startStudySession_queue today (Some (stg\<lparr>newCardsPerDay := Some 0\<rparr>)) allCards)
       = take 20 (filter is_new allCards)
   \<and> mset (startStudySession_queue today
              (Some (stg\<lparr>newCardsPerDay := Some 0, reviewsPerDay := Some 0\<rparr>)) allCards)
       = mset (take 200 (filter (\<lambda>c. \<not> is_new c) (getDueCards today allCards))
               @ take 20 (filter is_new allCards))
   \<and> (state (sr c) \<noteq> Review \<and> quality \<noteq> 0 \<and> quality \<noteq> 3 \<and> learningStep (sr c) = 0 \<longrightarrow>
        state (snd (calculateNextReview h now today rnd c quality
                      (stg\<lparr>learningSteps := Some []\<rparr>))) = Review
        \<and> state (snd (calculateNextReview h now today rnd c quality
                      (stg\<lparr>learningSteps := None\<rparr>))) = Learning)"
proof (intro conjI impI)
  show "interval (snd (calculateNextReview h now today rnd c 3 (stg\<lparr>easyInterval := Some 0\<rparr>))) = 4"
    if "state (sr c) \<noteq> Review"
    using that
    by (simp add: calculateNextReview_not_Review handleLearningCard_def or_number_def
        DEFAULT_EASY_INTERVAL_def)
  show "interval (snd (calculateNextReview h now today rnd c quality
                       (stg\<lparr>graduatingInterval := Some 0\<rparr>))) = 1"
    if "state (sr c) \<noteq> Review \<and> quality \<noteq> 0 \<and> quality \<noteq> 3
        \<and> length (or_array (learningSteps stg) [1, 10]) \<le> learningStep (sr c) + 1"
    using that
    by (simp add: calculateNextReview_not_Review handleLearningCard_def or_number_def
        DEFAULT_GRADUATING_INTERVAL_def DEFAULT_LEARNING_STEPS_def)
  show "newCardsPerDay (create_settings (Some ds)) = Some 20" if "newCardsPerDay ds = Some 0"
    using that by (simp add: create_settings_def or_number_def)
  show "reviewsPerDay (create_settings (Some ds)) = Some 200" if "reviewsPerDay ds = Some 0"
    using that by (simp add: create_settings_def or_number_def)
  show "graduatingInterval (create_settings (Some ds)) = Some 1" if "graduatingInterval ds = Some 0"
    using that by (simp add: create_settings_def or_number_def)
  show "easyInterval (create_settings (Some ds)) = Some 4" if "easyInterval ds = Some 0"
    using that by (simp add: create_settings_def or_number_def)
  show "learningSteps (create_settings (Some ds)) = Some []" if "learningSteps ds = Some []"
    using that by (simp add: create_settings_def or_array_def)
  have nn: "filter is_new (take k (filter (\<lambda>c. \<not> is_new c) xs)) = []" for k xs
    by (auto simp add: filter_empty_conv dest: in_set_takeD)
  have tn: "filter is_new (take k (filter is_new xs)) = take k (filter is_new xs)" for k xs
    by (auto simp add: filter_id_conv dest: in_set_takeD)
  show "filter is_new (startStudySession_queue today (Some (stg\<lparr>newCardsPerDay := Some 0\<rparr>)) allCards)
       = take 20 (filter is_new allCards)"
    by (simp add: startStudySession_queue_eq filter_is_new_sortStudyQueue or_number_def slice0_def
        nn tn)
  have due: "\<forall>c\<in>set (take 200 (filter (\<lambda>c. \<not> is_new c) (getDueCards today allCards))
               @ take 20 (filter is_new allCards)).
              is_new c \<or> is_learning c \<or> is_overdue today c \<or> is_due_today today c"
    by (auto simp add: getDueCards_eq dest!: in_set_takeD)
  show "mset (startStudySession_queue today
              (Some (stg\<lparr>newCardsPerDay := Some 0, reviewsPerDay := Some 0\<rparr>)) allCards)
       = mset (take 200 (filter (\<lambda>c. \<not> is_new c) (getDueCards today allCards))
               @ take 20 (filter is_new allCards))"
    unfolding startStudySession_queue_eq
    using mset_sortStudyQueue [OF due]
    by (simp add: or_number_def slice0_def)
  show "state (snd (calculateNextReview h now today rnd c quality
                      (stg\<lparr>learningSteps := Some []\<rparr>))) = Review"
    and "state (snd (calculateNextReview h now today rnd c quality
                      (stg\<lparr>learningSteps := None\<rparr>))) = Learning"
    if "state (sr c) \<noteq> Review \<and> quality \<noteq> 0 \<and> quality \<noteq> 3 \<and> learningStep (sr c) = 0"
    using that
    by (simp_all add: calculateNextReview_not_Review handleLearningCard_def or_array_def
        DEFAULT_LEARNING_STEPS_def)
qed

theorem zero_settings_fall_back_witness:
  "state (sr new_card) \<noteq> Review \<and> (2::int) \<noteq> 0 \<and> (2::int) \<noteq> 3
   \<and> length (or_array (learningSteps one_step_settings) [1, 10]) \<le> learningStep (sr new_card) + 1
   \<and> learningStep (sr new_card) = 0
   \<and> newCardsPerDay zero_settings = Some 0 \<and> reviewsPerDay zero_settings = Some 0
   \<and> graduatingInterval zero_settings = Some 0 \<and> easyInterval zero_settings = Some 0
   \<and> learningSteps zero_settings = Some []
   \<and> interval (snd (calculateNextReview heap1 ''t'' 100 (1 / 2) new_card 3
                      (one_step_settings\<lparr>easyInterval := Some 0\<rparr>))) = 4
   \<and> interval (snd (calculateNextReview heap1 ''t'' 100 (1 / 2) new_card 2
                      (one_step_settings\<lparr>graduatingInterval := Some 0\<rparr>))) = 1
   \<and> newCardsPerDay (create_settings (Some zero_settings)) = Some 20
   \<and> reviewsPerDay (create_settings (Some zero_settings)) = Some 200
   \<and> graduatingInterval (create_settings (Some zero_settings)) = Some 1
   \<and> easyInterval (create_settings (Some zero_settings)) = Some 4
   \<and> learningSteps (create_settings (Some zero_settings)) = Some []
   \<and> filter is_new (startStudySession_queue 100 (Some (one_step_settings\<lparr>newCardsPerDay := Some 0\<rparr>))
                      (replicate 25 new_card)) = replicate 20 new_card
   \<and> state (snd (calculateNextReview heap1 ''t'' 100 (1 / 2) new_card 2
                    (one_step_settings\<lparr>learningSteps := Some []\<rparr>))) = Review
   \<and> state (snd (calculateNextReview heap1 ''t'' 100 (1 / 2) new_card 2
                    (one_step_settings\<lparr>learningSteps := None\<rparr>))) = Learning"
proof -
  have w1: "state (sr new_card) \<noteq> Review" "(2::int) \<noteq> 0" "(2::int) \<noteq> 3"
    "length (or_array (learningSteps one_step_settings) [1, 10]) \<le> learningStep (sr new_card) + 1"
    "learningStep (sr new_card) = 0"
    by (simp_all add: example_defs one_step_settings_def or_array_def)
  have w2: "newCardsPerDay zero_settings = Some 0" "reviewsPerDay zero_settings = Some 0"
    "graduatingInterval zero_settings = Some 0" "easyInterval zero_settings = Some 0"
    "learningSteps zero_settings = Some []"
    by (simp_all add: zero_settings_def)
  have w3: "take 20 (filter is_new (replicate 25 new_card)) = replicate 20 new_card"
    by (simp add: is_new_def example_defs)
  show ?thesis
    using zero_settings_fall_back [where c = new_card and h = heap1 and now = "''t''"
        and today = 100 and rnd = "1 / 2" and stg = one_step_settings and quality = 2
        and ds = zero_settings and allCards = "replicate 25 new_card"] w1 w2 w3
    by simp
qed

end
